theory Spec2Isabelle
  imports Complex_Main "HOL-Library.Sublist"
begin

section \<open>Values\<close>

text \<open>
  The catalog body and the tool-call arguments are decoded JSON. The program inspects
  them dynamically (\<^verbatim>\<open>in\<close>, \<^verbatim>\<open>isinstance\<close>, \<^verbatim>\<open>.get\<close>, truthiness), so the model keeps the
  whole value space of the decoder: \<^verbatim>\<open>None\<close>, booleans, unbounded integers, floats,
  strings, lists and dicts. A dict is an association list (a decoded object has each key
  once; lookups read it with \<open>map_of\<close>).

  Strings are lists of \<open>char\<close>, read as code points below 256. On that range
  \<^verbatim>\<open>str.lower\<close> and the white space of \<^verbatim>\<open>str.strip\<close> are written out in full.
\<close>

datatype pyfloat = Finite rat | PosInfinity | NegInfinity | NaN

datatype json =
    JNull
  | JBool bool
  | JInt int
  | JFloat pyfloat
  | JStr string
  | JArr "json list"
  | JObj "(string \<times> json) list"

text \<open>The name of a value's class, as it appears in the interpreter's error messages.\<close>

fun type_name :: "json \<Rightarrow> string" where
  "type_name JNull = ''NoneType''"
| "type_name (JBool _) = ''bool''"
| "type_name (JInt _) = ''int''"
| "type_name (JFloat _) = ''float''"
| "type_name (JStr _) = ''str''"
| "type_name (JArr _) = ''list''"
| "type_name (JObj _) = ''dict''"

text \<open>Truth value of an object in a condition (\<^verbatim>\<open>if query:\<close>).\<close>

fun truthy :: "json \<Rightarrow> bool" where
  "truthy JNull = False"
| "truthy (JBool b) = b"
| "truthy (JInt i) = (i \<noteq> 0)"
| "truthy (JFloat (Finite r)) = (r \<noteq> 0)"
| "truthy (JFloat _) = True"
| "truthy (JStr s) = (s \<noteq> [])"
| "truthy (JArr xs) = (xs \<noteq> [])"
| "truthy (JObj kvs) = (kvs \<noteq> [])"

subsection \<open>Strings\<close>

text \<open>\<^verbatim>\<open>str.lower\<close>: A-Z and the capital letters of Latin-1 move up by 32.\<close>

definition lower_char :: "char \<Rightarrow> char" where
  "lower_char c =
     (let n = (of_char c :: nat)
      in if (65 \<le> n \<and> n \<le> 90) \<or> (192 \<le> n \<and> n \<le> 222 \<and> n \<noteq> 215)
         then char_of (n + 32) else c)"

definition lower :: "string \<Rightarrow> string" where
  "lower s = map lower_char s"

text \<open>White space as \<^verbatim>\<open>str.strip()\<close> sees it.\<close>

definition isspace :: "char \<Rightarrow> bool" where
  "isspace c =
     (let n = (of_char c :: nat)
      in (9 \<le> n \<and> n \<le> 13) \<or> (28 \<le> n \<and> n \<le> 32) \<or> n = 133 \<or> n = 160)"

definition strip :: "string \<Rightarrow> string" where
  "strip s = rev (dropWhile isspace (rev (dropWhile isspace s)))"

text \<open>\<^verbatim>\<open>sep.join(items)\<close> on strings.\<close>

fun join :: "string \<Rightarrow> string list \<Rightarrow> string" where
  "join sep [] = []"
| "join sep [x] = x"
| "join sep (x # y # ys) = x @ sep @ join sep (y # ys)"

text \<open>A number in decimal, as \<^verbatim>\<open>{n}\<close> formats it.\<close>

fun show_nat :: "nat \<Rightarrow> string" where
  "show_nat n = (if n < 10 then [char_of (48 + n)] else show_nat (n div 10) @ [char_of (48 + n mod 10)])"

text \<open>A name between single quotes, as error messages print it.\<close>

definition quoted :: "string \<Rightarrow> string" where
  "quoted s = [CHR 0x27] @ s @ [CHR 0x27]"

subsection \<open>Exceptions\<close>

text \<open>
  The classes of the exceptions that the modelled operations raise. All of them derive
  from \<^verbatim>\<open>Exception\<close>, so a handler \<^verbatim>\<open>except Exception\<close> is the last, catch-all branch
  of a \<^verbatim>\<open>try\<close>. \<open>HTTPError\<close> (raised by \<^verbatim>\<open>raise_for_status\<close>), \<open>ConnectionError\<close> and
  \<open>RequestsJSONDecodeError\<close> (raised by \<^verbatim>\<open>response.json()\<close>) derive from
  \<^verbatim>\<open>requests.RequestException\<close>; the last one also from \<^verbatim>\<open>json.JSONDecodeError\<close>.
  \<open>MarkupError\<close> is what the console raises on text that it cannot render.
  \<open>str\<close> is the text that \<^verbatim>\<open>{e}\<close> formats; for the exceptions that the interpreter
  raises itself the texts are those of CPython 3.12.
\<close>

datatype exn_class =
    RequestException | HTTPError | ConnectionError | RequestsJSONDecodeError
  | JSONDecodeError | ValueError | RecursionError | TypeError | AttributeError | KeyError
  | EOFError | MarkupError | OtherException

datatype exn = Exn (cls: exn_class) (str: string)

fun is_RequestException :: "exn_class \<Rightarrow> bool" where
  "is_RequestException RequestException = True"
| "is_RequestException HTTPError = True"
| "is_RequestException ConnectionError = True"
| "is_RequestException RequestsJSONDecodeError = True"
| "is_RequestException _ = False"

fun is_JSONDecodeError :: "exn_class \<Rightarrow> bool" where
  "is_JSONDecodeError JSONDecodeError = True"
| "is_JSONDecodeError RequestsJSONDecodeError = True"
| "is_JSONDecodeError _ = False"

section \<open>The catalog client\<close>

text \<open>\<^verbatim>\<open>{"data": [...]}\<close>, or \<^verbatim>\<open>{"error": msg}\<close> with an optional \<^verbatim>\<open>"raw_response"\<close>.\<close>

datatype catalog_result = Data "json list" | Error string "json option"

text \<open>\<^verbatim>\<open>key in obj\<close> for a string key: dict key, list element, substring; others raise.\<close>

fun py_in :: "string \<Rightarrow> json \<Rightarrow> exn + bool" where
  "py_in k (JObj kvs) = Inr (map_of kvs k \<noteq> None)"
| "py_in k (JArr xs) = Inr (JStr k \<in> set xs)"
| "py_in k (JStr s) = Inr (sublist k s)"
| "py_in k v = Inl (Exn TypeError (''argument of type '' @ quoted (type_name v) @ '' is not iterable''))"

text \<open>\<^verbatim>\<open>obj[key]\<close> for a string key.\<close>

fun subscript :: "json \<Rightarrow> string \<Rightarrow> exn + json" where
  "subscript (JObj kvs) k =
     (case map_of kvs k of
        None \<Rightarrow> Inl (Exn KeyError (quoted k))
      | Some v \<Rightarrow> Inr v)"
| "subscript (JArr xs) k = Inl (Exn TypeError ''list indices must be integers or slices, not str'')"
| "subscript (JStr s) k = Inl (Exn TypeError (''string indices must be integers, not '' @ quoted ''str''))"
| "subscript v k = Inl (Exn TypeError (quoted (type_name v) @ '' object is not subscriptable''))"

text \<open>\<^verbatim>\<open>product.get(key, "")\<close>: only a dict has the method.\<close>

fun product_get :: "json \<Rightarrow> string \<Rightarrow> exn + json" where
  "product_get (JObj kvs) k = Inr (case map_of kvs k of None \<Rightarrow> JStr [] | Some v \<Rightarrow> v)"
| "product_get v k =
     Inl (Exn AttributeError (quoted (type_name v) @ '' object has no attribute '' @ quoted ''get''))"

text \<open>
  \<^verbatim>\<open>" ".join([...])\<close> accepts strings only: the first item of another class raises.
  \<open>i\<close> is the position of the first item of \<open>items\<close> in the joined list (at most 9 here).
\<close>

fun str_items :: "nat \<Rightarrow> json list \<Rightarrow> exn + string list" where
  "str_items i [] = Inr []"
| "str_items i (JStr s # items) =
     (case str_items (Suc i) items of Inl e \<Rightarrow> Inl e | Inr ss \<Rightarrow> Inr (s # ss))"
| "str_items i (v # items) =
     Inl (Exn TypeError (''sequence item '' @ [char_of (48 + i)] @ '': expected str instance, ''
                         @ type_name v @ '' found''))"

definition py_join :: "string \<Rightarrow> json list \<Rightarrow> exn + string" where
  "py_join sep items = (case str_items 0 items of Inl e \<Rightarrow> Inl e | Inr ss \<Rightarrow> Inr (join sep ss))"

text \<open>\<^verbatim>\<open>query.lower()\<close>: only a string has the method.\<close>

fun py_lower :: "json \<Rightarrow> exn + string" where
  "py_lower (JStr s) = Inr (lower s)"
| "py_lower v =
     Inl (Exn AttributeError (quoted (type_name v) @ '' object has no attribute '' @ quoted ''lower''))"

text \<open>Lines 55 to 59: the three \<^verbatim>\<open>.get\<close> calls, the join, the lower-casing.\<close>

definition searchable_text :: "json \<Rightarrow> exn + string" where
  "searchable_text product =
     (case product_get product ''productName'' of
        Inl e \<Rightarrow> Inl e
      | Inr n \<Rightarrow>
     (case product_get product ''description'' of
        Inl e \<Rightarrow> Inl e
      | Inr d \<Rightarrow>
     (case product_get product ''category'' of
        Inl e \<Rightarrow> Inl e
      | Inr c \<Rightarrow>
     (case py_join '' '' [n, d, c] of
        Inl e \<Rightarrow> Inl e
      | Inr t \<Rightarrow> Inr (lower t)))))"

text \<open>
  The loop of lines 54 to 61, with \<^verbatim>\<open>filtered_products\<close> as the accumulator. An
  exception at any product leaves the loop.
\<close>

fun filter_loop :: "string \<Rightarrow> json list \<Rightarrow> json list \<Rightarrow> exn + json list" where
  "filter_loop query_lower [] filtered_products = Inr filtered_products"
| "filter_loop query_lower (product # products) filtered_products =
     (case searchable_text product of
        Inl e \<Rightarrow> Inl e
      | Inr text \<Rightarrow>
          filter_loop query_lower products
            (if sublist query_lower text then filtered_products @ [product]
             else filtered_products))"

text \<open>Lines 51 to 62: the filter runs when the query is truthy.\<close>

definition filter_products :: "json \<Rightarrow> json list \<Rightarrow> exn + json list" where
  "filter_products query products =
     (if truthy query then
        (case py_lower query of
           Inl e \<Rightarrow> Inl e
         | Inr query_lower \<Rightarrow> filter_loop query_lower products [])
      else Inr products)"

text \<open>
  Line 46 and line 49: \<open>None\<close> when the format test fails, the product list otherwise.
  \<^verbatim>\<open>or\<close> evaluates \<^verbatim>\<open>data["data"]\<close> only when the key test passed.
\<close>

definition data_list :: "json \<Rightarrow> exn + json list option" where
  "data_list data =
     (case py_in ''data'' data of
        Inl e \<Rightarrow> Inl e
      | Inr has_key \<Rightarrow>
          if \<not> has_key then Inr None
          else (case subscript data ''data'' of
                  Inl e \<Rightarrow> Inl e
                | Inr (JArr products) \<Rightarrow> Inr (Some products)
                | Inr _ \<Rightarrow> Inr None))"

definition format_invalid :: string where
  "format_invalid = ''API response format invalid: missing '' @ quoted ''data'' @ '' key or not a list.''"

text \<open>
  The body of the \<^verbatim>\<open>try\<close> (lines 42 to 64). \<open>response\<close> is what lines 42 to 44 give:
  the exception of \<^verbatim>\<open>requests.get\<close>, \<^verbatim>\<open>raise_for_status\<close> or \<^verbatim>\<open>response.json()\<close>, or the
  decoded body. \<open>query\<close> is the argument, \<open>JNull\<close> for \<^verbatim>\<open>None\<close>.
\<close>

definition get_products_try :: "exn + json \<Rightarrow> json \<Rightarrow> exn + catalog_result" where
  "get_products_try response query =
     (case response of
        Inl e \<Rightarrow> Inl e
      | Inr data \<Rightarrow>
          (case data_list data of
             Inl e \<Rightarrow> Inl e
           | Inr None \<Rightarrow> Inr (Error format_invalid (Some data))
           | Inr (Some products) \<Rightarrow>
               (case filter_products query products of
                  Inl e \<Rightarrow> Inl e
                | Inr products' \<Rightarrow> Inr (Data products'))))"

text \<open>The function with its two handlers (lines 65 to 68).\<close>

definition get_products_api :: "exn + json \<Rightarrow> json \<Rightarrow> exn + catalog_result" where
  "get_products_api response query =
     (case get_products_try response query of
        Inr result \<Rightarrow> Inr result
      | Inl e \<Rightarrow>
          if is_RequestException (cls e)
          then Inr (Error (''Failed to fetch products from API: '' @ str e) None)
          else Inr (Error (''An unexpected error occurred: '' @ str e) None))"

text \<open>
  Lines 42 to 44. \<^verbatim>\<open>requests.get\<close> raises (\<open>Inl\<close>) or gives a response, of which the
  program reads the status and the decoded body; \<open>json_body\<close> is the outcome of
  \<^verbatim>\<open>response.json()\<close>. \<^verbatim>\<open>raise_for_status\<close> raises for a status from 400 to 599 and for no
  other.
\<close>

record http_response =
  status_code :: nat
  reason :: string
  url :: string
  json_body :: "exn + json"

definition raise_for_status :: "http_response \<Rightarrow> exn option" where
  "raise_for_status r =
     (if 400 \<le> status_code r \<and> status_code r < 500
      then Some (Exn HTTPError (show_nat (status_code r) @ '' Client Error: '' @ reason r
                                @ '' for url: '' @ url r))
      else if 500 \<le> status_code r \<and> status_code r < 600
      then Some (Exn HTTPError (show_nat (status_code r) @ '' Server Error: '' @ reason r
                                @ '' for url: '' @ url r))
      else None)"

definition fetch_body :: "exn + http_response \<Rightarrow> exn + json" where
  "fetch_body got =
     (case got of
        Inl e \<Rightarrow> Inl e
      | Inr r \<Rightarrow> (case raise_for_status r of Some e \<Rightarrow> Inl e | None \<Rightarrow> json_body r))"

section \<open>The conversation loop\<close>

subsection \<open>Transcript, environment and state\<close>

datatype role = System | User | Assistant | Tool

text \<open>A tool-call request of the model: \<^verbatim>\<open>id\<close>, \<^verbatim>\<open>function.name\<close>, \<^verbatim>\<open>function.arguments\<close>.\<close>

record tool_call =
  tc_id :: string
  function_name :: string
  function_arguments :: string

text \<open>
  An entry of \<^verbatim>\<open>messages\<close>. \<open>content\<close> may be \<^verbatim>\<open>None\<close>; \<open>tool_calls\<close> is empty on every
  entry but the model's tool-call request; \<open>tool_call_id\<close> and \<open>name\<close> are set on tool
  results only.
\<close>

record message =
  role :: role
  content :: "string option"
  tool_calls :: "tool_call list"
  tool_call_id :: "string option"
  name :: "string option"

text \<open>
  What the program reads of a completion: \<^verbatim>\<open>choices[0].message\<close> with its \<^verbatim>\<open>content\<close> and
  \<^verbatim>\<open>tool_calls\<close> (\<^verbatim>\<open>None\<close> and the empty list, both false in \<^verbatim>\<open>if tool_calls:\<close>, are \<open>[]\<close>).
\<close>

record reply =
  reply_content :: "string option"
  reply_tool_calls :: "tool_call list"

text \<open>
  The outside world, as parameters. \<open>http_get k\<close> is what \<^verbatim>\<open>requests.get\<close> gives at the
  \<open>k\<close>-th catalog request. \<open>chat_create k msgs tools\<close> is the outcome of the \<open>k\<close>-th
  completion request, sent with transcript \<open>msgs\<close> and with (\<open>True\<close>) or without the tool
  declarations: an exception of the client or of reading \<^verbatim>\<open>choices[0].message\<close>, or the
  reply. \<open>json_loads\<close> is the decoder, which raises \<^verbatim>\<open>JSONDecodeError\<close> on a malformed
  payload and may raise others (\<^verbatim>\<open>RecursionError\<close> on deep nesting, \<^verbatim>\<open>ValueError\<close> on an
  overlong number); \<open>json_dumps\<close> is the serialiser of a tool output, which may raise as
  well (\<^verbatim>\<open>RecursionError\<close> on a body nested too deep for it). \<open>console_print\<close>
  is the rendering of a text that holds values of the run: \<open>None\<close> when it is printed,
  the exception otherwise (the console reads square brackets in the text as markup and
  raises \<^verbatim>\<open>MarkupError\<close> on a closing tag that closes nothing).
\<close>

record world =
  http_get :: "nat \<Rightarrow> exn + http_response"
  chat_create :: "nat \<Rightarrow> message list \<Rightarrow> bool \<Rightarrow> exn + reply"
  json_loads :: "string \<Rightarrow> exn + json"
  json_dumps :: "catalog_result \<Rightarrow> exn + string"
  console_print :: "string \<Rightarrow> exn option"

text \<open>
  The state: the transcript, the completion requests sent so far (each with the transcript
  it carried and whether it declared the tools) and the number of catalog requests.
  What the console shows is not kept. The prints of fixed texts (lines 121 to 123, 130
  and 134) are valid markup and are left out; the lines that the console delivers are
  the input list of the loop.
\<close>

record state =
  messages :: "message list"
  llm_requests :: "(message list \<times> bool) list"
  catalog_requests :: nat

definition plain_message :: "role \<Rightarrow> string option \<Rightarrow> message" where
  "plain_message r c = \<lparr>role = r, content = c, tool_calls = [], tool_call_id = None, name = None\<rparr>"

definition append_message :: "message \<Rightarrow> state \<Rightarrow> state" where
  "append_message m s = s\<lparr>messages := messages s @ [m]\<rparr>"

text \<open>\<^verbatim>\<open>client.chat.completions.create(...)\<close> and the reading of the reply.\<close>

definition chat_completions_create :: "world \<Rightarrow> bool \<Rightarrow> state \<Rightarrow> (exn + reply) \<times> state" where
  "chat_completions_create w tools s =
     (chat_create w (length (llm_requests s)) (messages s) tools,
      s\<lparr>llm_requests := llm_requests s @ [(messages s, tools)]\<rparr>)"

subsection \<open>The texts that are printed\<close>

text \<open>\<^verbatim>\<open>{agent_response_content}\<close> in an f-string: \<^verbatim>\<open>None\<close> is formatted as its name.\<close>

definition format_content :: "string option \<Rightarrow> string" where
  "format_content c = (case c of None \<Rightarrow> ''None'' | Some t \<Rightarrow> t)"

definition tool_call_text :: "tool_call \<Rightarrow> string" where
  "tool_call_text tc =
     ''[dim]Tool Call: '' @ function_name tc @ ''('' @ function_arguments tc @ '')[/dim]''"

definition tool_output_text :: "string \<Rightarrow> string" where
  "tool_output_text tool_output_str = ''[dim]Tool Output: '' @ tool_output_str @ ''[/dim]''"

definition agent_text :: "string option \<Rightarrow> string" where
  "agent_text c = ''[green]Agent:[/green] '' @ format_content c"

definition error_text :: "string \<Rightarrow> string" where
  "error_text error_message = ''[bold red]Error:[/bold red] '' @ error_message"

definition invalid_json_error :: "tool_call \<Rightarrow> string" where
  "invalid_json_error tc =
     ''Agent tried to call '' @ function_name tc @ '' with invalid JSON arguments: ''
     @ function_arguments tc"

definition tool_error :: "tool_call \<Rightarrow> exn \<Rightarrow> string" where
  "tool_error tc e = ''Error executing tool '' @ function_name tc @ '': '' @ str e"

definition unknown_tool_error :: "tool_call \<Rightarrow> string" where
  "unknown_tool_error tc = ''Unknown tool requested by agent: '' @ function_name tc"

definition unexpected_text :: "exn \<Rightarrow> string" where
  "unexpected_text e = ''[bold red]An unexpected error occurred:[/bold red] '' @ str e"

subsection \<open>Tool dispatch\<close>

text \<open>
  \<^verbatim>\<open>get_products_api(**args)\<close> (line 162): the call itself raises unless \<open>args\<close> is a
  dict whose only possible key is \<^verbatim>\<open>query\<close>; no catalog request is made then.
\<close>

definition call_get_products_api :: "world \<Rightarrow> json \<Rightarrow> state \<Rightarrow> (exn + catalog_result) \<times> state" where
  "call_get_products_api w args s =
     (case args of
        JObj kwargs \<Rightarrow>
          (case find (\<lambda>k. k \<noteq> ''query'') (map fst kwargs) of
             Some k \<Rightarrow>
               (Inl (Exn TypeError (''get_products_api() got an unexpected keyword argument '' @ quoted k)), s)
           | None \<Rightarrow>
               (get_products_api (fetch_body (http_get w (catalog_requests s)))
                  (case map_of kwargs ''query'' of None \<Rightarrow> JNull | Some q \<Rightarrow> q),
                s\<lparr>catalog_requests := Suc (catalog_requests s)\<rparr>))
      | _ \<Rightarrow>
          (Inl (Exn TypeError (''__main__.get_products_api() argument after ** must be a mapping, not ''
                               @ type_name args)), s))"

definition tool_message :: "tool_call \<Rightarrow> string \<Rightarrow> message" where
  "tool_message tc tool_output_str =
     \<lparr>role = Tool, content = Some tool_output_str, tool_calls = [],
      tool_call_id = Some (tc_id tc), name = Some (function_name tc)\<rparr>"

text \<open>
  Lines 168 to 183: the tool message, the follow-up request, the assistant message and
  its print.
\<close>

definition answer_tool_call :: "world \<Rightarrow> tool_call \<Rightarrow> string \<Rightarrow> state \<Rightarrow> (exn + unit) \<times> state" where
  "answer_tool_call w tc tool_output_str s =
     (case chat_completions_create w False (append_message (tool_message tc tool_output_str) s) of
        (Inl e, s1) \<Rightarrow> (Inl e, s1)
      | (Inr final_response, s1) \<Rightarrow>
          (case console_print w (agent_text (reply_content final_response)) of
             Some e \<Rightarrow> (Inl e, append_message (plain_message Assistant (reply_content final_response)) s1)
           | None \<Rightarrow> (Inr (), append_message (plain_message Assistant (reply_content final_response)) s1)))"

text \<open>The body of the inner \<^verbatim>\<open>try\<close> (lines 159 to 183).\<close>

definition execute_tool_call :: "world \<Rightarrow> tool_call \<Rightarrow> state \<Rightarrow> (exn + unit) \<times> state" where
  "execute_tool_call w tc s =
     (case json_loads w (function_arguments tc) of
        Inl e \<Rightarrow> (Inl e, s)
      | Inr args \<Rightarrow>
          (case call_get_products_api w args s of
             (Inl e, s1) \<Rightarrow> (Inl e, s1)
           | (Inr tool_output, s1) \<Rightarrow>
               (case json_dumps w tool_output of
                  Inl e \<Rightarrow> (Inl e, s1)
                | Inr tool_output_str \<Rightarrow>
                    (case console_print w (tool_call_text tc) of
                       Some e \<Rightarrow> (Inl e, s1)
                     | None \<Rightarrow>
                         (case console_print w (tool_output_text tool_output_str) of
                            Some e \<Rightarrow> (Inl e, s1)
                          | None \<Rightarrow> answer_tool_call w tc tool_output_str s1)))))"

definition invalid_json_message :: "tool_call \<Rightarrow> message" where
  "invalid_json_message tc =
     plain_message Assistant
       (Some (''I encountered an error processing your request: '' @ invalid_json_error tc))"

definition tool_error_message :: "exn \<Rightarrow> message" where
  "tool_error_message e =
     plain_message Assistant (Some (''I encountered an error while trying to find products: '' @ str e))"

definition unknown_tool_message :: "tool_call \<Rightarrow> message" where
  "unknown_tool_message tc =
     plain_message Assistant
       (Some (''I was asked to use an unknown tool ('' @ function_name tc
              @ ''). Please try again or rephrase your request.''))"

text \<open>
  A handler or branch that prints a report and then appends a message (lines 186 to 188,
  190 to 192, 194 and 195, 203 and 204): when the print raises, the message is not
  appended and the exception goes on to the enclosing \<^verbatim>\<open>try\<close>.
\<close>

definition report :: "world \<Rightarrow> string \<Rightarrow> message \<Rightarrow> state \<Rightarrow> (exn + unit) \<times> state" where
  "report w printed m s =
     (case console_print w printed of
        Some e \<Rightarrow> (Inl e, s)
      | None \<Rightarrow> (Inr (), append_message m s))"

text \<open>One pass of the \<^verbatim>\<open>for\<close> body (lines 153 to 195), with the two inner handlers.\<close>

definition process_tool_call :: "world \<Rightarrow> tool_call \<Rightarrow> state \<Rightarrow> (exn + unit) \<times> state" where
  "process_tool_call w tc s =
     (if function_name tc = ''get_products_api'' then
        (case execute_tool_call w tc s of
           (Inr u, s') \<Rightarrow> (Inr u, s')
         | (Inl e, s') \<Rightarrow>
             if is_JSONDecodeError (cls e)
             then report w (error_text (invalid_json_error tc)) (invalid_json_message tc) s'
             else report w (error_text (tool_error tc e)) (tool_error_message e) s')
      else report w (error_text (unknown_tool_error tc)) (unknown_tool_message tc) s)"

text \<open>The \<^verbatim>\<open>for\<close> loop over the tool calls (line 152).\<close>

fun dispatch :: "world \<Rightarrow> tool_call list \<Rightarrow> state \<Rightarrow> (exn + unit) \<times> state" where
  "dispatch w [] s = (Inr (), s)"
| "dispatch w (tc # tcs) s =
     (case process_tool_call w tc s of
        (Inl e, s') \<Rightarrow> (Inl e, s')
      | (Inr u, s') \<Rightarrow> dispatch w tcs s')"

subsection \<open>One turn and the session\<close>

definition response_message :: "reply \<Rightarrow> message" where
  "response_message r =
     \<lparr>role = Assistant, content = reply_content r, tool_calls = reply_tool_calls r,
      tool_call_id = None, name = None\<rparr>"

text \<open>The body of the outer \<^verbatim>\<open>try\<close> (lines 138 to 200).\<close>

definition turn_try :: "world \<Rightarrow> state \<Rightarrow> (exn + unit) \<times> state" where
  "turn_try w s =
     (case chat_completions_create w True s of
        (Inl e, s1) \<Rightarrow> (Inl e, s1)
      | (Inr r, s1) \<Rightarrow>
          if reply_tool_calls r \<noteq> []
          then dispatch w (reply_tool_calls r) (append_message (response_message r) s1)
          else (case console_print w (agent_text (reply_content r)) of
                  Some e \<Rightarrow> (Inl e, append_message (plain_message Assistant (reply_content r)) s1)
                | None \<Rightarrow> (Inr (), append_message (plain_message Assistant (reply_content r)) s1)))"

definition apology :: message where
  "apology = plain_message Assistant (Some ''I apologize, but I encountered an error. Could you please try again?'')"

text \<open>The outer \<^verbatim>\<open>try\<close> with its handler (lines 136 to 204).\<close>

definition turn :: "world \<Rightarrow> state \<Rightarrow> (exn + unit) \<times> state" where
  "turn w s =
     (case turn_try w s of
        (Inr u, s') \<Rightarrow> (Inr u, s')
      | (Inl e, s') \<Rightarrow> report w (unexpected_text e) apology s')"

text \<open>
  The \<^verbatim>\<open>while True\<close> loop (lines 127 to 204) over the lines that the console delivers.
  The loop ends by \<^verbatim>\<open>break\<close>, or by an exception that leaves it: \<^verbatim>\<open>console.input\<close> raises
  \<^verbatim>\<open>EOFError\<close> when the input has ended, and a turn lets out what its handler raises.
\<close>

datatype ending = Goodbye | Uncaught exn

definition is_exit :: "string \<Rightarrow> bool" where
  "is_exit user_input = (lower (strip user_input) \<in> set [''exit'', ''quit''])"

fun run_loop :: "world \<Rightarrow> string list \<Rightarrow> state \<Rightarrow> ending \<times> state" where
  "run_loop w [] s = (Uncaught (Exn EOFError ''EOF when reading a line''), s)"
| "run_loop w (user_input # rest) s =
     (if is_exit user_input then (Goodbye, s)
      else (case turn w (append_message (plain_message User (Some user_input)) s) of
              (Inl e, s') \<Rightarrow> (Uncaught e, s')
            | (Inr u, s') \<Rightarrow> run_loop w rest s'))"

text \<open>\<^verbatim>\<open>SYSTEM_PROMPT\<close> (lines 81 to 92), line by line; every line ends with a newline.\<close>

definition SYSTEM_PROMPT :: string where
  "SYSTEM_PROMPT =
     join [CHR 0x0A]
       [''You are a helpful shopping assistant. Your primary goal is to assist users in finding products.'',
        ''You have access to a `get_products_api` tool to fetch product information.'',
        [],
        ''When a user asks for products:'',
        ''1. Call the `get_products_api` tool to get product data.'',
        ''2. If the user'' @ [CHR 0x27] @ ''s query contains keywords (like product names, types, or categories), pass that as the '' @ [CHR 0x27] @ ''query'' @ [CHR 0x27] @ '' argument to the tool.'',
        ''3. If no specific product is mentioned, you can call the tool without a '' @ [CHR 0x27] @ ''query'' @ [CHR 0x27] @ '' to list general products.'',
        ''4. Once you have the product data, present up to 5 relevant products to the user.'',
        ''5. For each product, display its '' @ [CHR 0x27] @ ''productName'' @ [CHR 0x27] @ '', '' @ [CHR 0x27] @ ''price'' @ [CHR 0x27] @ '' (convert cents to dollars, e.g., 10000 becomes $100.00), and optionally '' @ [CHR 0x27] @ ''description'' @ [CHR 0x27] @ '' or '' @ [CHR 0x27] @ ''category'' @ [CHR 0x27] @ '' if relevant to the user'' @ [CHR 0x27] @ ''s query.'',
        ''6. If no products are found for a specific query, politely inform the user and perhaps suggest some general popular products.'',
        ''7. Be friendly, concise, and always offer further assistance.''] @ [CHR 0x0A]"

text \<open>\<^verbatim>\<open>run_shopping_agent\<close>: the transcript starts with the system message (line 125).\<close>

definition run_shopping_agent :: "world \<Rightarrow> string list \<Rightarrow> ending \<times> state" where
  "run_shopping_agent w user_inputs =
     run_loop w user_inputs
       \<lparr>messages = [plain_message System (Some SYSTEM_PROMPT)], llm_requests = [], catalog_requests = 0\<rparr>"

section \<open>Notions of the specification\<close>

text \<open>
  The specification's searchable string of a product: the name, description and category
  fields joined with single spaces, a missing field counting as the empty string, in
  lower case. A product matches a query when the lower-cased query is a substring of it.
\<close>

definition text_field :: "(string \<times> json) list \<Rightarrow> string \<Rightarrow> string" where
  "text_field kvs k = (case map_of kvs k of Some (JStr s) \<Rightarrow> s | _ \<Rightarrow> [])"

fun spec_searchable :: "json \<Rightarrow> string" where
  "spec_searchable (JObj kvs) =
     lower (text_field kvs ''productName'' @ '' '' @ text_field kvs ''description''
            @ '' '' @ text_field kvs ''category'')"
| "spec_searchable _ = []"

definition spec_matches :: "string \<Rightarrow> json \<Rightarrow> bool" where
  "spec_matches q product = sublist (lower q) (spec_searchable product)"

text \<open>A product is a dict whose three text fields, where present, hold strings.\<close>

definition absent_or_string :: "(string \<times> json) list \<Rightarrow> string \<Rightarrow> bool" where
  "absent_or_string kvs k =
     (case map_of kvs k of None \<Rightarrow> True | Some (JStr s) \<Rightarrow> True | Some _ \<Rightarrow> False)"

fun text_fields_are_strings :: "json \<Rightarrow> bool" where
  "text_fields_are_strings (JObj kvs) =
     (absent_or_string kvs ''productName'' \<and> absent_or_string kvs ''description''
      \<and> absent_or_string kvs ''category'')"
| "text_fields_are_strings _ = False"

text \<open>The expected shape of the body: a dict with a list under \<^verbatim>\<open>data\<close>.\<close>

fun is_dict :: "json \<Rightarrow> bool" where
  "is_dict (JObj kvs) = True"
| "is_dict _ = False"

fun has_data_list :: "json \<Rightarrow> bool" where
  "has_data_list (JObj kvs) = (case map_of kvs ''data'' of Some (JArr P) \<Rightarrow> True | _ \<Rightarrow> False)"
| "has_data_list _ = False"

text \<open>What the loop does with one product: it is kept when its text exists and matches.\<close>

definition keeps :: "string \<Rightarrow> json \<Rightarrow> bool" where
  "keeps query_lower product =
     (case searchable_text product of Inl e \<Rightarrow> False | Inr t \<Rightarrow> sublist query_lower t)"

text \<open>
  A tool call is executed when it names \<^verbatim>\<open>get_products_api\<close> and its arguments decode to
  a dict with no key but \<^verbatim>\<open>query\<close>; \<open>tool_query\<close> is then the query passed on
  (\<open>JNull\<close> when the key is absent).
\<close>

definition tool_query :: "world \<Rightarrow> tool_call \<Rightarrow> json option" where
  "tool_query w tc =
     (if function_name tc = ''get_products_api'' then
        (case json_loads w (function_arguments tc) of
           Inr (JObj kwargs) \<Rightarrow>
             if list_all (\<lambda>k. k = ''query'') (map fst kwargs)
             then Some (case map_of kwargs ''query'' of None \<Rightarrow> JNull | Some q \<Rightarrow> q)
             else None
         | _ \<Rightarrow> None)
      else None)"

definition executes :: "world \<Rightarrow> tool_call \<Rightarrow> bool" where
  "executes w tc = (tool_query w tc \<noteq> None)"

text \<open>The catalog result that a call made in state \<open>s\<close> with query \<open>q\<close> receives.\<close>

definition catalog_output :: "world \<Rightarrow> state \<Rightarrow> json \<Rightarrow> catalog_result" where
  "catalog_output w s q = projr (get_products_api (fetch_body (http_get w (catalog_requests s))) q)"

text \<open>
  The result is serialised (line 163) and the call and its output are shown (lines 164
  and 165): all of this comes before the tool message is appended, so the message exists
  only when it succeeds. \<open>dumped\<close> is the serialised result.
\<close>

definition dumped :: "world \<Rightarrow> state \<Rightarrow> json \<Rightarrow> string" where
  "dumped w s q = projr (json_dumps w (catalog_output w s q))"

definition announced :: "world \<Rightarrow> tool_call \<Rightarrow> state \<Rightarrow> json \<Rightarrow> bool" where
  "announced w tc s q =
     (case json_dumps w (catalog_output w s q) of
        Inl e \<Rightarrow> False
      | Inr tool_output_str \<Rightarrow>
          console_print w (tool_call_text tc) = None
          \<and> console_print w (tool_output_text tool_output_str) = None)"

text \<open>The tool-result messages of a transcript that answer the call \<open>x\<close>.\<close>

definition tool_results_for :: "string \<Rightarrow> message list \<Rightarrow> message list" where
  "tool_results_for x msgs = filter (\<lambda>m. role m = Tool \<and> tool_call_id m = Some x) msgs"

definition tool_result_ids :: "message list \<Rightarrow> string option list" where
  "tool_result_ids msgs = map tool_call_id (filter (\<lambda>m. role m = Tool) msgs)"

text \<open>
  The roles of the messages that the dispatch of a list of calls leaves when nothing
  interrupts it: a tool result and an assistant message for an executed call, an
  assistant message alone for any other.
\<close>

definition dispatch_roles :: "world \<Rightarrow> tool_call list \<Rightarrow> role list" where
  "dispatch_roles w tcs = concat (map (\<lambda>tc. if executes w tc then [Tool, Assistant] else [Assistant]) tcs)"

text \<open>
  The transcript of the follow-up request of an executed call, and the assistant message
  that its outcome leaves: the reply's content, or the report of the inner handlers.
\<close>

definition follow_up_request :: "world \<Rightarrow> tool_call \<Rightarrow> state \<Rightarrow> json \<Rightarrow> message list" where
  "follow_up_request w tc s q = messages s @ [tool_message tc (dumped w s q)]"

definition answer_message :: "tool_call \<Rightarrow> exn + reply \<Rightarrow> message" where
  "answer_message tc outcome =
     (case outcome of
        Inr final \<Rightarrow> plain_message Assistant (reply_content final)
      | Inl e \<Rightarrow> if is_JSONDecodeError (cls e) then invalid_json_message tc else tool_error_message e)"

section \<open>A small world to run the program in\<close>

text \<open>
  A decoder that knows three payloads, a serialiser that prints the variant only, a
  catalog of two products behind a response with status 200, a console that prints
  everything, and a model that answers every request that declares the tools with
  \<open>first\<close> and every other request with \<open>follow_up\<close>.
\<close>

definition example_loads :: "string \<Rightarrow> exn + json" where
  "example_loads s =
     (if s = ''{}'' then Inr (JObj [])
      else if s = ''{\"query\": \"shoe\"}'' then Inr (JObj [(''query'', JStr ''shoe'')])
      else if s = ''[1]'' then Inr (JArr [JInt 1])
      else Inl (Exn JSONDecodeError ''Expecting property name enclosed in double quotes''))"

definition example_dumps :: "catalog_result \<Rightarrow> exn + string" where
  "example_dumps r = (case r of Data ps \<Rightarrow> Inr ''{data}'' | Error msg raw \<Rightarrow> Inr ''{error}'')"

definition example_catalog :: json where
  "example_catalog =
     JObj [(''data'', JArr [JObj [(''productName'', JStr ''Red Shoe''), (''price'', JInt 10000)],
                           JObj [(''productName'', JStr ''Hat''), (''price'', JInt 1500)]])]"

definition example_response :: "nat \<Rightarrow> string \<Rightarrow> http_response" where
  "example_response status phrase =
     \<lparr>status_code = status, reason = phrase,
      url = ''https://template-03-api.vercel.app/api/products'',
      json_body = Inr example_catalog\<rparr>"

definition example_world :: "(exn + reply) \<Rightarrow> (exn + reply) \<Rightarrow> world" where
  "example_world first follow_up =
     \<lparr>http_get = (\<lambda>k. Inr (example_response 200 ''OK'')),
      chat_create = (\<lambda>k msgs tools. if tools then first else follow_up),
      json_loads = example_loads,
      json_dumps = example_dumps,
      console_print = (\<lambda>printed. None)\<rparr>"

text \<open>
  A console that cannot render the closing tag \<^verbatim>\<open>[/x]\<close>, and says so with the position of
  the tag in the text, as the console of the program does when no \<^verbatim>\<open>[x]\<close> is open.
\<close>

fun position_of :: "string \<Rightarrow> string \<Rightarrow> nat" where
  "position_of tag [] = 0"
| "position_of tag (c # cs) = (if prefix tag (c # cs) then 0 else Suc (position_of tag cs))"

definition strict_print :: "string \<Rightarrow> exn option" where
  "strict_print printed =
     (if sublist ''[/x]'' printed
      then Some (Exn MarkupError (''closing tag '' @ quoted ''[/x]'' @ '' at position ''
                                  @ show_nat (position_of ''[/x]'' printed)
                                  @ '' doesn'' @ [CHR 0x27] @ ''t match any open tag''))
      else None)"

definition strict_world :: "(exn + reply) \<Rightarrow> (exn + reply) \<Rightarrow> world" where
  "strict_world first follow_up = (example_world first follow_up)\<lparr>console_print := strict_print\<rparr>"

definition example_state :: state where
  "example_state =
     \<lparr>messages = [plain_message System (Some ''You are a helpful shopping assistant.'')],
      llm_requests = [], catalog_requests = 0\<rparr>"

definition shoe_call :: tool_call where
  "shoe_call = \<lparr>tc_id = ''x'', function_name = ''get_products_api'',
                function_arguments = ''{\"query\": \"shoe\"}''\<rparr>"

definition all_call :: tool_call where
  "all_call = \<lparr>tc_id = ''a'', function_name = ''get_products_api'', function_arguments = ''{}''\<rparr>"

definition broken_call :: tool_call where
  "broken_call = \<lparr>tc_id = ''y'', function_name = ''get_products_api'',
                  function_arguments = ''{not json''\<rparr>"

definition unknown_call :: tool_call where
  "unknown_call = \<lparr>tc_id = ''z'', function_name = ''lookup_price'',
                   function_arguments = ''{not json''\<rparr>"

definition reply_prose :: "string \<Rightarrow> exn + reply" where
  "reply_prose c = Inr \<lparr>reply_content = Some c, reply_tool_calls = []\<rparr>"

definition reply_calls :: "tool_call list \<Rightarrow> exn + reply" where
  "reply_calls tcs = Inr \<lparr>reply_content = None, reply_tool_calls = tcs\<rparr>"

section \<open>Properties of the catalog client\<close>

text \<open>
  C7. When the decoded body is a dict whose \<^verbatim>\<open>data\<close> is the list \<open>P\<close>, a call without a
  query (\<^verbatim>\<open>None\<close>) or with the empty query returns exactly \<open>P\<close>: every product, in the
  same order.
\<close>

theorem fetch_without_query_returns_all:
  assumes "map_of body ''data'' = Some (JArr P)"
  shows "get_products_api (Inr (JObj body)) JNull = Inr (Data P)
       \<and> get_products_api (Inr (JObj body)) (JStr []) = Inr (Data P)"
  using assms
  by (simp add: get_products_api_def get_products_try_def data_list_def filter_products_def)

theorem fetch_without_query_returns_all_witness:
  "map_of [(''data'', JArr [JObj [(''productName'', JStr ''Hat'')], JInt 7])] ''data''
     = Some (JArr [JObj [(''productName'', JStr ''Hat'')], JInt 7])
   \<and> get_products_api (Inr (JObj [(''data'', JArr [JObj [(''productName'', JStr ''Hat'')], JInt 7])])) JNull
     = Inr (Data [JObj [(''productName'', JStr ''Hat'')], JInt 7])
   \<and> get_products_api (Inr (JObj [(''data'', JArr [JObj [(''productName'', JStr ''Hat'')], JInt 7])])) (JStr [])
     = Inr (Data [JObj [(''productName'', JStr ''Hat'')], JInt 7])"
proof -
  have h: "map_of [(''data'', JArr [JObj [(''productName'', JStr ''Hat'')], JInt 7])] ''data''
     = Some (JArr [JObj [(''productName'', JStr ''Hat'')], JInt 7])"
    by simp
  from fetch_without_query_returns_all [OF h] h show ?thesis by simp
qed

text \<open>
  C5, as the code has it. Whatever \<^verbatim>\<open>requests.get\<close> gives and whatever the query is, the
  function returns a result and raises nothing. When the request fails, the result is
  the error variant with the text of the exception after a fixed prefix. So it is when
  the status is one from 400 to 599, for which \<^verbatim>\<open>raise_for_status\<close> raises. A response
  with any other status is read like a success: its body is decoded and checked.
\<close>

theorem fetch_failures_are_results:
  "(\<exists>result. get_products_api (fetch_body got) query = Inr result)
   \<and> get_products_api (fetch_body (Inl e)) query
       = Inr (Error ((if is_RequestException (cls e)
                      then ''Failed to fetch products from API: ''
                      else ''An unexpected error occurred: '') @ str e) None)
   \<and> (400 \<le> status_code r \<and> status_code r < 600 \<longrightarrow>
        get_products_api (fetch_body (Inr r)) query
          = Inr (Error (''Failed to fetch products from API: '' @ show_nat (status_code r)
                        @ (if status_code r < 500 then '' Client Error: '' else '' Server Error: '')
                        @ reason r @ '' for url: '' @ url r) None))
   \<and> (status_code r < 400 \<or> 600 \<le> status_code r \<longrightarrow>
        get_products_api (fetch_body (Inr r)) query = get_products_api (json_body r) query)"
proof -
  have 1: "\<exists>result. get_products_api (fetch_body got) query = Inr result"
    by (simp add: get_products_api_def split: sum.splits)
  have 2: "get_products_api (fetch_body (Inl e)) query
       = Inr (Error ((if is_RequestException (cls e)
                      then ''Failed to fetch products from API: ''
                      else ''An unexpected error occurred: '') @ str e) None)"
    by (simp add: fetch_body_def get_products_api_def get_products_try_def)
  have 3: "get_products_api (fetch_body (Inr r)) query
          = Inr (Error (''Failed to fetch products from API: '' @ show_nat (status_code r)
                        @ (if status_code r < 500 then '' Client Error: '' else '' Server Error: '')
                        @ reason r @ '' for url: '' @ url r) None)"
    if "400 \<le> status_code r \<and> status_code r < 600"
    using that
    by (simp add: fetch_body_def raise_for_status_def get_products_api_def get_products_try_def
             del: show_nat.simps)
  have 4: "get_products_api (fetch_body (Inr r)) query = get_products_api (json_body r) query"
    if "status_code r < 400 \<or> 600 \<le> status_code r"
    using that by (auto simp: fetch_body_def raise_for_status_def simp del: show_nat.simps)
  from 1 2 3 4 show ?thesis by blast
qed

theorem fetch_failures_are_results_witness:
  "get_products_api (fetch_body (Inl (Exn ConnectionError ''Connection refused''))) (JStr ''hat'')
     = Inr (Error ''Failed to fetch products from API: Connection refused'' None)
   \<and> status_code (example_response 404 ''Not Found'') = 404
   \<and> get_products_api (fetch_body (Inr (example_response 404 ''Not Found''))) (JStr ''hat'')
     = Inr (Error (''Failed to fetch products from API: 404 Client Error: Not Found for url: ''
                   @ ''https://template-03-api.vercel.app/api/products'') None)
   \<and> status_code (example_response 200 ''OK'') = 200
   \<and> get_products_api (fetch_body (Inr (example_response 200 ''OK''))) (JStr ''hat'')
     = Inr (Data [JObj [(''productName'', JStr ''Hat''), (''price'', JInt 1500)]])"
proof -
  have s4: "status_code (example_response 404 ''Not Found'') = 404"
    and s2: "status_code (example_response 200 ''OK'') = 200"
    by (simp_all add: example_response_def)
  have n: "show_nat 404 = ''404''" by code_simp
  have f: "reason (example_response 404 ''Not Found'') = ''Not Found''"
    "url (example_response 404 ''Not Found'') = ''https://template-03-api.vercel.app/api/products''"
    by (simp_all add: example_response_def)
  have v: "get_products_api (json_body (example_response 200 ''OK'')) (JStr ''hat'')
           = Inr (Data [JObj [(''productName'', JStr ''Hat''), (''price'', JInt 1500)]])"
    by code_simp
  have a: "get_products_api (fetch_body (Inl (Exn ConnectionError ''Connection refused''))) (JStr ''hat'')
     = Inr (Error ''Failed to fetch products from API: Connection refused'' None)"
    using fetch_failures_are_results
            [of "Inl (Exn ConnectionError ''Connection refused'')" "JStr ''hat''"
                "Exn ConnectionError ''Connection refused''" "example_response 404 ''Not Found''"]
    by simp
  have b: "get_products_api (fetch_body (Inr (example_response 404 ''Not Found''))) (JStr ''hat'')
     = Inr (Error (''Failed to fetch products from API: 404 Client Error: Not Found for url: ''
                   @ ''https://template-03-api.vercel.app/api/products'') None)"
    using fetch_failures_are_results
            [of "Inl (Exn ConnectionError ''Connection refused'')" "JStr ''hat''"
                "Exn ConnectionError ''Connection refused''" "example_response 404 ''Not Found''"]
          s4 n f
    by (simp del: show_nat.simps)
  have c: "get_products_api (fetch_body (Inr (example_response 200 ''OK''))) (JStr ''hat'')
     = Inr (Data [JObj [(''productName'', JStr ''Hat''), (''price'', JInt 1500)]])"
    using fetch_failures_are_results
            [of "Inl (Exn ConnectionError ''Connection refused'')" "JStr ''hat''"
                "Exn ConnectionError ''Connection refused''" "example_response 200 ''OK''"]
          s2 v
    by (simp del: show_nat.simps)
  from a b c s4 s2 show ?thesis by blast
qed

text \<open>
  C5 as stated fails for a status outside 2xx that \<^verbatim>\<open>raise_for_status\<close> lets pass: a
  response with status 300 and a well-formed body gives the product list.
\<close>

theorem fetch_failures_are_results_counterexample:
  "status_code (example_response 300 ''Multiple Choices'') = 300
   \<and> get_products_api (fetch_body (Inr (example_response 300 ''Multiple Choices''))) JNull
     = Inr (Data [JObj [(''productName'', JStr ''Red Shoe''), (''price'', JInt 10000)],
                  JObj [(''productName'', JStr ''Hat''), (''price'', JInt 1500)]])"
  by code_simp

subsection \<open>The filter loop\<close>

lemma filter_loop_result:
  "filter_loop ql ps acc = Inr R \<Longrightarrow> R = acc @ filter (keeps ql) ps"
proof (induction ps arbitrary: acc)
  case Nil
  then show ?case by simp
next
  case (Cons p ps)
  show ?case
  proof (cases "searchable_text p")
    case (Inl e)
    with Cons.prems show ?thesis by simp
  next
    case (Inr t)
    show ?thesis
    proof (cases "sublist ql t")
      case True
      with Inr Cons.prems have "filter_loop ql ps (acc @ [p]) = Inr R" by simp
      then have "R = (acc @ [p]) @ filter (keeps ql) ps" by (rule Cons.IH)
      moreover from Inr True have "keeps ql p" by (simp add: keeps_def)
      ultimately show ?thesis by simp
    next
      case False
      with Inr Cons.prems have "filter_loop ql ps acc = Inr R" by simp
      then have "R = acc @ filter (keeps ql) ps" by (rule Cons.IH)
      moreover from Inr False have "\<not> keeps ql p" by (simp add: keeps_def)
      ultimately show ?thesis by simp
    qed
  qed
qed

lemma filter_loop_all_kept:
  "list_all (keeps ql) ps \<Longrightarrow> filter_loop ql ps acc = Inr (acc @ ps)"
  by (induction ps arbitrary: acc) (auto simp: keeps_def split: sum.splits)

lemma filter_loop_idem:
  assumes "filter_loop ql ps [] = Inr R"
  shows "filter_loop ql R [] = Inr R"
proof -
  from assms have "R = filter (keeps ql) ps"
    using filter_loop_result by fastforce
  then have "list_all (keeps ql) R"
    by (simp add: list_all_iff)
  then show ?thesis
    using filter_loop_all_kept by fastforce
qed

lemma filter_loop_all_defined:
  "list_all (\<lambda>p. \<exists>t. searchable_text p = Inr t) ps \<Longrightarrow>
   filter_loop ql ps acc = Inr (acc @ filter (keeps ql) ps)"
proof (induction ps arbitrary: acc)
  case Nil
  then show ?case by simp
next
  case (Cons p ps)
  from Cons.prems obtain t where t: "searchable_text p = Inr t" by auto
  from Cons.prems have rest: "list_all (\<lambda>p. \<exists>t. searchable_text p = Inr t) ps" by simp
  show ?case
  proof (cases "sublist ql t")
    case True
    with t have "keeps ql p" by (simp add: keeps_def)
    moreover have "filter_loop ql ps (acc @ [p]) = Inr ((acc @ [p]) @ filter (keeps ql) ps)"
      using rest by (rule Cons.IH)
    ultimately show ?thesis using t True by simp
  next
    case False
    with t have "\<not> keeps ql p" by (simp add: keeps_def)
    moreover have "filter_loop ql ps acc = Inr (acc @ filter (keeps ql) ps)"
      using rest by (rule Cons.IH)
    ultimately show ?thesis using t False by simp
  qed
qed

lemma searchable_text_well_typed:
  "text_fields_are_strings p \<Longrightarrow> searchable_text p = Inr (spec_searchable p)"
  by (cases p)
     (auto simp: searchable_text_def py_join_def absent_or_string_def text_field_def
           split: option.splits json.splits)

lemma keeps_well_typed:
  "text_fields_are_strings p \<Longrightarrow> keeps (lower q) p = spec_matches q p"
  by (simp add: keeps_def spec_matches_def searchable_text_well_typed)

text \<open>
  C10. Filtering the output of the filter again with the same query changes nothing. Where
  the first pass raises, so does the composition, with the same exception.
\<close>

theorem filter_idempotent:
  "(case filter_products query P of
      Inl e \<Rightarrow> Inl e
    | Inr R \<Rightarrow> filter_products query R) = filter_products query P"
proof (cases "filter_products query P")
  case (Inl e)
  then show ?thesis by simp
next
  case (Inr R)
  have "filter_products query R = Inr R"
  proof (cases "truthy query")
    case False
    then show ?thesis by (simp add: filter_products_def)
  next
    case True
    with Inr obtain ql where ql: "py_lower query = Inr ql" and loop: "filter_loop ql P [] = Inr R"
      by (auto simp: filter_products_def split: sum.splits)
    from loop have "filter_loop ql R [] = Inr R" by (rule filter_loop_idem)
    with True ql show ?thesis by (simp add: filter_products_def)
  qed
  with Inr show ?thesis by simp
qed

theorem filter_idempotent_witness:
  "filter_products (JStr ''SHOE'')
     [JObj [(''productName'', JStr ''Red Shoe'')], JObj [(''category'', JStr ''hats'')],
      JObj [(''description'', JStr ''a shoe box'')]]
     = Inr [JObj [(''productName'', JStr ''Red Shoe'')], JObj [(''description'', JStr ''a shoe box'')]]
   \<and> filter_products (JStr ''SHOE'')
        [JObj [(''productName'', JStr ''Red Shoe'')], JObj [(''description'', JStr ''a shoe box'')]]
     = Inr [JObj [(''productName'', JStr ''Red Shoe'')], JObj [(''description'', JStr ''a shoe box'')]]"
proof -
  have e: "filter_products (JStr ''SHOE'')
     [JObj [(''productName'', JStr ''Red Shoe'')], JObj [(''category'', JStr ''hats'')],
      JObj [(''description'', JStr ''a shoe box'')]]
     = Inr [JObj [(''productName'', JStr ''Red Shoe'')], JObj [(''description'', JStr ''a shoe box'')]]"
    by code_simp
  from filter_idempotent [of "JStr ''SHOE''"
         "[JObj [(''productName'', JStr ''Red Shoe'')], JObj [(''category'', JStr ''hats'')],
           JObj [(''description'', JStr ''a shoe box'')]]"] e
  show ?thesis by simp
qed

text \<open>
  C1, as the code has it. With a non-empty query string, a dict body whose \<^verbatim>\<open>data\<close> is
  the list \<open>P\<close>, and every product of \<open>P\<close> a dict whose name, description and category
  are strings where present, the result is the list of the products of \<open>P\<close> that match,
  in the order of \<open>P\<close>.
\<close>

theorem fetch_with_query_filters:
  assumes "map_of body ''data'' = Some (JArr P)"
      and "q \<noteq> []"
      and "list_all text_fields_are_strings P"
  shows "get_products_api (Inr (JObj body)) (JStr q) = Inr (Data (filter (spec_matches q) P))
       \<and> subseq (filter (spec_matches q) P) P"
proof -
  from assms(3) have "list_all (\<lambda>p. \<exists>t. searchable_text p = Inr t) P"
    by (simp add: list_all_iff searchable_text_well_typed)
  then have "filter_loop (lower q) P [] = Inr ([] @ filter (keeps (lower q)) P)"
    by (rule filter_loop_all_defined)
  moreover from assms(3) have "filter (keeps (lower q)) P = filter (spec_matches q) P"
    by (intro filter_cong) (auto simp: list_all_iff keeps_well_typed)
  ultimately have "filter_products (JStr q) P = Inr (filter (spec_matches q) P)"
    using assms(2) by (simp add: filter_products_def)
  with assms(1) show ?thesis
    by (simp add: get_products_api_def get_products_try_def data_list_def)
qed

theorem fetch_with_query_filters_witness:
  "get_products_api
     (Inr (JObj [(''data'', JArr [JObj [(''productName'', JStr ''Red Shoe'')],
                                 JObj [(''category'', JStr ''hats'')],
                                 JObj [(''description'', JStr ''a shoe box''), (''price'', JInt 100)]])]))
     (JStr ''SHOE'')
   = Inr (Data [JObj [(''productName'', JStr ''Red Shoe'')],
                JObj [(''description'', JStr ''a shoe box''), (''price'', JInt 100)]])"
proof -
  let ?P = "[JObj [(''productName'', JStr ''Red Shoe'')],
             JObj [(''category'', JStr ''hats'')],
             JObj [(''description'', JStr ''a shoe box''), (''price'', JInt 100)]]"
  have h1: "map_of [(''data'', JArr ?P)] ''data'' = Some (JArr ?P)" by simp
  have h2: "''SHOE'' \<noteq> []" by simp
  have h3: "list_all text_fields_are_strings ?P" by code_simp
  have v: "filter (spec_matches ''SHOE'') ?P
            = [JObj [(''productName'', JStr ''Red Shoe'')],
               JObj [(''description'', JStr ''a shoe box''), (''price'', JInt 100)]]"
    by code_simp
  from fetch_with_query_filters [OF h1 h2 h3] v show ?thesis by simp
qed

text \<open>
  C1 as stated fails where a product holds a text field that is not a string: the join
  of line 55 raises, the handler of line 67 answers with the error variant, and the first
  product, which matches, is not returned.
\<close>

theorem fetch_with_query_counterexample:
  "get_products_api
     (Inr (JObj [(''data'', JArr [JObj [(''productName'', JStr ''Apple'')],
                                 JObj [(''productName'', JStr ''Pear''), (''description'', JNull)]])]))
     (JStr ''apple'')
   = Inr (Error ''An unexpected error occurred: sequence item 1: expected str instance, NoneType found'' None)"
  by code_simp

subsection \<open>The format test\<close>

lemma data_list_dict:
  "\<not> has_data_list (JObj kvs) \<Longrightarrow> data_list (JObj kvs) = Inr None"
  by (auto simp: data_list_def split: option.splits json.splits)

lemma data_list_other:
  "\<not> has_data_list body \<Longrightarrow> data_list body = Inr None \<or> (\<exists>e. data_list body = Inl e)"
  by (cases body) (auto simp: data_list_def split: option.splits json.splits)

text \<open>
  C6, as the code has it. A body that is not a dict with a list under \<^verbatim>\<open>data\<close> gives the
  error variant and nothing is raised. When the body is a dict, the error is the
  invalid-format message together with the body itself as the raw response.
\<close>

theorem fetch_invalid_format:
  assumes "\<not> has_data_list body"
  shows "(\<exists>msg raw. get_products_api (Inr body) query = Inr (Error msg raw))
       \<and> (is_dict body \<longrightarrow>
            get_products_api (Inr body) query = Inr (Error format_invalid (Some body)))"
proof -
  from assms data_list_other have "data_list body = Inr None \<or> (\<exists>e. data_list body = Inl e)"
    by blast
  then have "\<exists>msg raw. get_products_api (Inr body) query = Inr (Error msg raw)"
    by (auto simp: get_products_api_def get_products_try_def)
  moreover have "get_products_api (Inr body) query = Inr (Error format_invalid (Some body))"
    if "is_dict body"
  proof -
    from that obtain kvs where "body = JObj kvs" by (cases body) auto
    with assms show ?thesis
      by (simp add: get_products_api_def get_products_try_def data_list_dict)
  qed
  ultimately show ?thesis by simp
qed

theorem fetch_invalid_format_witness:
  "\<not> has_data_list (JObj [(''data'', JStr ''not-a-list'')])
   \<and> is_dict (JObj [(''data'', JStr ''not-a-list'')])
   \<and> get_products_api (Inr (JObj [(''data'', JStr ''not-a-list'')])) JNull
       = Inr (Error format_invalid (Some (JObj [(''data'', JStr ''not-a-list'')])))"
proof -
  have h: "\<not> has_data_list (JObj [(''data'', JStr ''not-a-list'')])" by simp
  have d: "is_dict (JObj [(''data'', JStr ''not-a-list'')])" by simp
  from fetch_invalid_format [OF h, of JNull] d h show ?thesis by simp
qed

text \<open>
  C6 as stated fails for the body \<^verbatim>\<open>null\<close>: the key test of line 46 raises, and the
  handler of line 67 answers without a raw response.
\<close>

theorem fetch_invalid_format_counterexample:
  "get_products_api (Inr JNull) JNull
   = Inr (Error (''An unexpected error occurred: argument of type '' @ quoted ''NoneType''
                 @ '' is not iterable'') None)"
  by code_simp

section \<open>Properties of the conversation loop\<close>

subsection \<open>One tool call\<close>

lemma get_products_api_returns:
  "get_products_api response query = Inr (projr (get_products_api response query))"
  by (simp add: get_products_api_def split: sum.splits)

lemma report_printed:
  "console_print w printed = None \<Longrightarrow> report w printed m s = (Inr (), append_message m s)"
  by (simp add: report_def)

lemma report_cases:
  "report w printed m s = (Inr (), append_message m s) \<or> (\<exists>e. report w printed m s = (Inl e, s))"
  by (cases "console_print w printed") (simp_all add: report_def)

lemma report_raises:
  "report w printed m s = (Inl e, s') \<Longrightarrow> console_print w printed = Some e \<and> s' = s"
  by (cases "console_print w printed") (simp_all add: report_def)

lemma report_grows:
  "prefix (messages s) (messages (snd (report w printed m s)))
   \<and> llm_requests (snd (report w printed m s)) = llm_requests s
   \<and> catalog_requests (snd (report w printed m s)) = catalog_requests s"
  by (cases "console_print w printed") (simp_all add: report_def append_message_def)

lemma call_executed:
  assumes "list_all (\<lambda>k. k = ''query'') (map fst kwargs)"
  shows "call_get_products_api w (JObj kwargs) s
         = (Inr (catalog_output w s (case map_of kwargs ''query'' of None \<Rightarrow> JNull | Some q \<Rightarrow> q)),
            s\<lparr>catalog_requests := Suc (catalog_requests s)\<rparr>)"
proof -
  from assms have "find (\<lambda>k. k \<noteq> ''query'') (map fst kwargs) = None"
    by (simp add: find_None_iff list_all_iff)
  then show ?thesis
    using get_products_api_returns
    by (simp add: call_get_products_api_def catalog_output_def)
qed

lemma call_refused:
  assumes "\<not> list_all (\<lambda>k. k = ''query'') (map fst kwargs)"
  shows "\<exists>e. call_get_products_api w (JObj kwargs) s = (Inl e, s)"
proof -
  from assms have "find (\<lambda>k. k \<noteq> ''query'') (map fst kwargs) \<noteq> None"
    by (simp add: find_None_iff list_all_iff)
  then show ?thesis
    by (auto simp: call_get_products_api_def)
qed

lemma call_not_mapping:
  assumes "\<not> is_dict args"
  shows "\<exists>e. call_get_products_api w args s = (Inl e, s)"
  using assms by (cases args) (simp_all add: call_get_products_api_def)

lemma call_state:
  "snd (call_get_products_api w args s) = s
   \<or> snd (call_get_products_api w args s) = s\<lparr>catalog_requests := Suc (catalog_requests s)\<rparr>"
  by (cases args) (auto simp: call_get_products_api_def split: option.splits)

subsubsection \<open>The answer to an executed call\<close>

lemma answer_tool_call_requests:
  "llm_requests (snd (answer_tool_call w tc out s))
     = llm_requests s @ [(messages s @ [tool_message tc out], False)]"
  by (simp add: answer_tool_call_def chat_completions_create_def append_message_def
           split: sum.splits option.splits)

lemma answer_tool_call_failed:
  "chat_create w (length (llm_requests s)) (messages s @ [tool_message tc out]) False = Inl e \<Longrightarrow>
   answer_tool_call w tc out s
     = (Inl e, \<lparr>messages = messages s @ [tool_message tc out],
                llm_requests = llm_requests s @ [(messages s @ [tool_message tc out], False)],
                catalog_requests = catalog_requests s\<rparr>)"
  by (simp add: answer_tool_call_def chat_completions_create_def append_message_def)

lemma answer_tool_call_answered:
  "chat_create w (length (llm_requests s)) (messages s @ [tool_message tc out]) False = Inr final \<Longrightarrow>
   answer_tool_call w tc out s
     = ((case console_print w (agent_text (reply_content final)) of Some e \<Rightarrow> Inl e | None \<Rightarrow> Inr ()),
        \<lparr>messages = messages s @ [tool_message tc out, plain_message Assistant (reply_content final)],
         llm_requests = llm_requests s @ [(messages s @ [tool_message tc out], False)],
         catalog_requests = catalog_requests s\<rparr>)"
  by (simp add: answer_tool_call_def chat_completions_create_def append_message_def
           split: option.splits)

lemma answer_tool_call_messages:
  "prefix (messages s @ [tool_message tc out]) (messages (snd (answer_tool_call w tc out s)))
   \<and> catalog_requests (snd (answer_tool_call w tc out s)) = catalog_requests s"
  by (cases "chat_create w (length (llm_requests s)) (messages s @ [tool_message tc out]) False")
     (simp_all add: answer_tool_call_failed answer_tool_call_answered)

lemma execute_announced:
  assumes "tool_query w tc = Some q" and "announced w tc s q"
  shows "execute_tool_call w tc s
         = answer_tool_call w tc (dumped w s q) (s\<lparr>catalog_requests := Suc (catalog_requests s)\<rparr>)"
proof -
  from assms(1) obtain kwargs where
    l: "json_loads w (function_arguments tc) = Inr (JObj kwargs)" and
    k: "list_all (\<lambda>k. k = ''query'') (map fst kwargs)" and
    q: "q = (case map_of kwargs ''query'' of None \<Rightarrow> JNull | Some q \<Rightarrow> q)"
    by (auto simp: tool_query_def split: if_splits sum.splits json.splits)
  from assms(2) show ?thesis
    unfolding execute_tool_call_def l q
    by (simp add: call_executed [OF k] announced_def dumped_def split: sum.splits)
qed

lemma execute_not_executed:
  assumes "function_name tc = ''get_products_api''" and "tool_query w tc = None"
  shows "\<exists>e. execute_tool_call w tc s = (Inl e, s)"
proof (cases "json_loads w (function_arguments tc)")
  case (Inl e)
  then show ?thesis by (simp add: execute_tool_call_def)
next
  case (Inr args)
  show ?thesis
  proof (cases "is_dict args")
    case False
    with call_not_mapping [of args w s] Inr show ?thesis
      by (auto simp: execute_tool_call_def)
  next
    case True
    then obtain kwargs where a: "args = JObj kwargs" by (cases args) auto
    with assms Inr have "\<not> list_all (\<lambda>k. k = ''query'') (map fst kwargs)"
      by (auto simp: tool_query_def split: if_splits)
    from call_refused [OF this, of w s] Inr a show ?thesis
      by (auto simp: execute_tool_call_def)
  qed
qed

lemma execute_grows:
  "prefix (messages s) (messages (snd (execute_tool_call w tc s)))
   \<and> prefix (llm_requests s) (llm_requests (snd (execute_tool_call w tc s)))"
proof (cases "json_loads w (function_arguments tc)")
  case (Inl e)
  then show ?thesis by (simp add: execute_tool_call_def)
next
  case (Inr args)
  obtain r s1 where c: "call_get_products_api w args s = (r, s1)" by (cases "call_get_products_api w args s")
  with call_state [of w args s] have s1: "messages s1 = messages s" "llm_requests s1 = llm_requests s"
    by auto
  show ?thesis
  proof (cases r)
    case (Inl e)
    with Inr c s1 show ?thesis by (simp add: execute_tool_call_def)
  next
    case out: (Inr out)
    have "prefix (messages s) (messages (snd (answer_tool_call w tc str s1)))
      \<and> prefix (llm_requests s) (llm_requests (snd (answer_tool_call w tc str s1)))" for str
      using answer_tool_call_messages [of s1 tc str w] answer_tool_call_requests [of w tc str s1] s1
      by (auto dest: append_prefixD)
    with Inr c out s1 show ?thesis
      by (simp add: execute_tool_call_def split: option.splits sum.splits)
  qed
qed

lemma process_grows:
  "prefix (messages s) (messages (snd (process_tool_call w tc s)))
   \<and> prefix (llm_requests s) (llm_requests (snd (process_tool_call w tc s)))"
proof (cases "function_name tc = ''get_products_api''")
  case False
  with report_grows [of s w "error_text (unknown_tool_error tc)" "unknown_tool_message tc"]
  show ?thesis by (simp add: process_tool_call_def)
next
  case True
  obtain r s1 where x: "execute_tool_call w tc s = (r, s1)" by (cases "execute_tool_call w tc s")
  with execute_grows [of s w tc] have g: "prefix (messages s) (messages s1)"
    "prefix (llm_requests s) (llm_requests s1)" by auto
  show ?thesis
  proof (cases r)
    case (Inr u)
    with True x g show ?thesis by (simp add: process_tool_call_def)
  next
    case (Inl e)
    from report_grows [of s1 w] g
    have "prefix (messages s) (messages (snd (report w printed m s1)))"
      and "prefix (llm_requests s) (llm_requests (snd (report w printed m s1)))" for printed m
      by (auto intro: prefix_order.trans)
    with True x Inl show ?thesis by (simp add: process_tool_call_def)
  qed
qed

lemma dispatch_first:
  "prefix (messages (snd (process_tool_call w tc s))) (messages (snd (dispatch w (tc # tcs) s)))
   \<and> prefix (llm_requests (snd (process_tool_call w tc s))) (llm_requests (snd (dispatch w (tc # tcs) s)))"
  and dispatch_grows:
  "prefix (messages s) (messages (snd (dispatch w tcs s)))
   \<and> prefix (llm_requests s) (llm_requests (snd (dispatch w tcs s)))"
proof -
  have g: "prefix (messages s) (messages (snd (dispatch w tcs s)))
           \<and> prefix (llm_requests s) (llm_requests (snd (dispatch w tcs s)))" for s tcs
  proof (induction tcs arbitrary: s)
    case Nil
    then show ?case by simp
  next
    case (Cons tc tcs)
    obtain r s1 where p: "process_tool_call w tc s = (r, s1)" by (cases "process_tool_call w tc s")
    with process_grows [of s w tc] have 1: "prefix (messages s) (messages s1)"
      "prefix (llm_requests s) (llm_requests s1)" by auto
    show ?case
    proof (cases r)
      case (Inl e)
      with p 1 show ?thesis by simp
    next
      case (Inr u)
      with p 1 Cons.IH [of s1] show ?thesis by (auto intro: prefix_order.trans)
    qed
  qed
  then show "prefix (messages s) (messages (snd (dispatch w tcs s)))
             \<and> prefix (llm_requests s) (llm_requests (snd (dispatch w tcs s)))" .
  obtain r s1 where p: "process_tool_call w tc s = (r, s1)" by (cases "process_tool_call w tc s")
  show "prefix (messages (snd (process_tool_call w tc s))) (messages (snd (dispatch w (tc # tcs) s)))
   \<and> prefix (llm_requests (snd (process_tool_call w tc s))) (llm_requests (snd (dispatch w (tc # tcs) s)))"
  proof (cases r)
    case (Inl e)
    with p show ?thesis by simp
  next
    case (Inr u)
    with p g [of s1 tcs] show ?thesis by simp
  qed
qed

lemma dispatch_returned:
  "fst (process_tool_call w tc s) = Inr () \<Longrightarrow>
   dispatch w (tc # tcs) s = dispatch w tcs (snd (process_tool_call w tc s))"
  by (cases "process_tool_call w tc s") (auto split: sum.splits)

lemma role_plain_message [simp]: "role (plain_message r c) = r"
  by (simp add: plain_message_def)

lemma role_error_messages [simp]:
  "role (unknown_tool_message tc) = Assistant"
  "role (invalid_json_message tc) = Assistant"
  "role (tool_error_message e) = Assistant"
  by (simp_all add: unknown_tool_message_def invalid_json_message_def tool_error_message_def)

lemma role_answer_message [simp]: "role (answer_message tc outcome) = Assistant"
  by (simp add: answer_message_def split: sum.splits)

lemma role_tool_message [simp]:
  "role (tool_message tc out) = Tool" "tool_call_id (tool_message tc out) = Some (tc_id tc)"
  by (simp_all add: tool_message_def)

subsubsection \<open>One call, when its reports are printed\<close>

lemma process_announced_requests:
  assumes "tool_query w tc = Some q" and "announced w tc s q"
  shows "llm_requests (snd (process_tool_call w tc s))
         = llm_requests s @ [(follow_up_request w tc s q, False)]"
proof -
  let ?s1 = "s\<lparr>catalog_requests := Suc (catalog_requests s)\<rparr>"
  from assms(1) have n: "function_name tc = ''get_products_api''"
    by (simp add: tool_query_def split: if_splits)
  obtain r s2 where x: "execute_tool_call w tc s = (r, s2)" by (cases "execute_tool_call w tc s")
  with execute_announced [OF assms] have "s2 = snd (answer_tool_call w tc (dumped w s q) ?s1)"
    by (metis snd_conv)
  then have l: "llm_requests s2 = llm_requests s @ [(follow_up_request w tc s q, False)]"
    by (simp add: answer_tool_call_requests follow_up_request_def)
  from report_grows [of s2 w] have "llm_requests (snd (report w printed m s2)) = llm_requests s2"
    for printed m by simp
  with n x l show ?thesis
    by (cases r) (simp_all add: process_tool_call_def)
qed

lemma process_announced_messages:
  assumes "tool_query w tc = Some q" and "announced w tc s q"
    and "chat_create w (length (llm_requests s)) (follow_up_request w tc s q) False = Inr final"
  shows "prefix (follow_up_request w tc s q @ [plain_message Assistant (reply_content final)])
                (messages (snd (process_tool_call w tc s)))"
proof -
  let ?s1 = "s\<lparr>catalog_requests := Suc (catalog_requests s)\<rparr>"
  from assms(1) have n: "function_name tc = ''get_products_api''"
    by (simp add: tool_query_def split: if_splits)
  obtain r s2 where x: "execute_tool_call w tc s = (r, s2)" by (cases "execute_tool_call w tc s")
  from assms(3) have "chat_create w (length (llm_requests ?s1))
       (messages ?s1 @ [tool_message tc (dumped w s q)]) False = Inr final"
    by (simp add: follow_up_request_def)
  from answer_tool_call_answered [OF this]
  have "messages (snd (answer_tool_call w tc (dumped w s q) ?s1))
        = follow_up_request w tc s q @ [plain_message Assistant (reply_content final)]"
    by (simp add: follow_up_request_def)
  moreover from x execute_announced [OF assms(1,2)]
  have "s2 = snd (answer_tool_call w tc (dumped w s q) ?s1)"
    by (metis snd_conv)
  ultimately
  have m: "messages s2 = follow_up_request w tc s q @ [plain_message Assistant (reply_content final)]"
    by simp
  from report_grows [of s2 w] have "prefix (messages s2) (messages (snd (report w printed m s2)))"
    for printed m by simp
  with n x m show ?thesis
    by (cases r) (simp_all add: process_tool_call_def)
qed

lemma process_follow_up_failed:
  assumes "tool_query w tc = Some q" and "announced w tc s q"
    and "chat_create w (length (llm_requests s)) (follow_up_request w tc s q) False = Inl e"
    and "console_print w (error_text (if is_JSONDecodeError (cls e) then invalid_json_error tc
                                      else tool_error tc e)) = None"
  shows "process_tool_call w tc s
         = (Inr (), \<lparr>messages = follow_up_request w tc s q @ [answer_message tc (Inl e)],
                     llm_requests = llm_requests s @ [(follow_up_request w tc s q, False)],
                     catalog_requests = Suc (catalog_requests s)\<rparr>)"
proof -
  let ?s1 = "s\<lparr>catalog_requests := Suc (catalog_requests s)\<rparr>"
  from assms(1) have n: "function_name tc = ''get_products_api''"
    by (simp add: tool_query_def split: if_splits)
  from assms(3) have "chat_create w (length (llm_requests ?s1))
       (messages ?s1 @ [tool_message tc (dumped w s q)]) False = Inl e"
    by (simp add: follow_up_request_def)
  from answer_tool_call_failed [OF this] execute_announced [OF assms(1,2)]
  have x: "execute_tool_call w tc s
       = (Inl e, \<lparr>messages = follow_up_request w tc s q,
                  llm_requests = llm_requests s @ [(follow_up_request w tc s q, False)],
                  catalog_requests = Suc (catalog_requests s)\<rparr>)"
    by (simp add: follow_up_request_def)
  from assms(4) n show ?thesis
    unfolding process_tool_call_def x
    by (simp add: report_printed answer_message_def append_message_def split: if_splits)
qed

lemma process_malformed:
  assumes "function_name tc = ''get_products_api''"
    and "json_loads w (function_arguments tc) = Inl e"
    and "is_JSONDecodeError (cls e)"
    and "console_print w (error_text (invalid_json_error tc)) = None"
  shows "process_tool_call w tc s = (Inr (), s\<lparr>messages := messages s @ [invalid_json_message tc]\<rparr>)"
  using assms
  by (simp add: process_tool_call_def execute_tool_call_def report_printed append_message_def)

subsubsection \<open>When the console prints everything\<close>

lemma announced_always:
  assumes "\<And>printed. console_print w printed = None" and "\<And>out. \<exists>t. json_dumps w out = Inr t"
  shows "announced w tc s q"
proof -
  from assms(2) obtain t where "json_dumps w (catalog_output w s q) = Inr t" by blast
  with assms(1) show ?thesis by (simp add: announced_def)
qed

lemma process_executed:
  assumes "\<And>printed. console_print w printed = None" and "\<And>out. \<exists>t. json_dumps w out = Inr t"
    and "tool_query w tc = Some q"
  shows "process_tool_call w tc s =
     (Inr (),
      \<lparr>messages = follow_up_request w tc s q
           @ [answer_message tc (chat_create w (length (llm_requests s)) (follow_up_request w tc s q) False)],
       llm_requests = llm_requests s @ [(follow_up_request w tc s q, False)],
       catalog_requests = Suc (catalog_requests s)\<rparr>)"
proof -
  let ?s1 = "s\<lparr>catalog_requests := Suc (catalog_requests s)\<rparr>"
  have a: "announced w tc s q" using assms(1,2) by (rule announced_always)
  show ?thesis
  proof (cases "chat_create w (length (llm_requests s)) (follow_up_request w tc s q) False")
    case (Inl e)
    with process_follow_up_failed [OF assms(3) a Inl] assms(1) show ?thesis by simp
  next
    case (Inr final)
    from assms(3) have n: "function_name tc = ''get_products_api''"
      by (simp add: tool_query_def split: if_splits)
    from Inr have "chat_create w (length (llm_requests ?s1))
         (messages ?s1 @ [tool_message tc (dumped w s q)]) False = Inr final"
      by (simp add: follow_up_request_def)
    from answer_tool_call_answered [OF this] execute_announced [OF assms(3) a] assms(1)
    have "execute_tool_call w tc s
       = (Inr (), \<lparr>messages = follow_up_request w tc s q @ [plain_message Assistant (reply_content final)],
                   llm_requests = llm_requests s @ [(follow_up_request w tc s q, False)],
                   catalog_requests = Suc (catalog_requests s)\<rparr>)"
      by (simp add: follow_up_request_def)
    with n Inr show ?thesis
      by (simp add: process_tool_call_def answer_message_def)
  qed
qed

lemma process_not_executed:
  assumes "\<And>printed. console_print w printed = None" and "tool_query w tc = None"
  shows "\<exists>m. role m = Assistant \<and> process_tool_call w tc s = (Inr (), append_message m s)"
proof (cases "function_name tc = ''get_products_api''")
  case False
  with assms(1) have "process_tool_call w tc s = (Inr (), append_message (unknown_tool_message tc) s)"
    by (simp add: process_tool_call_def report_printed)
  then show ?thesis
    using role_error_messages(1) by blast
next
  case True
  from execute_not_executed [OF True assms(2)] obtain e where "execute_tool_call w tc s = (Inl e, s)"
    by blast
  with True assms(1) have "process_tool_call w tc s
      = (Inr (), append_message (if is_JSONDecodeError (cls e) then invalid_json_message tc
                                 else tool_error_message e) s)"
    by (simp add: process_tool_call_def report_printed)
  moreover have "role (if is_JSONDecodeError (cls e) then invalid_json_message tc
                       else tool_error_message e) = Assistant"
    by simp
  ultimately show ?thesis by blast
qed

lemma process_never_raises:
  assumes "\<And>printed. console_print w printed = None"
  shows "fst (process_tool_call w tc s) = Inr ()"
proof (cases "function_name tc = ''get_products_api''")
  case False
  with assms show ?thesis by (simp add: process_tool_call_def report_printed)
next
  case True
  obtain r s1 where x: "execute_tool_call w tc s = (r, s1)" by (cases "execute_tool_call w tc s")
  with True assms show ?thesis
    by (cases r) (simp_all add: process_tool_call_def report_printed)
qed

lemma dispatch_Cons:
  assumes "\<And>printed. console_print w printed = None"
  shows "dispatch w (tc # tcs) s = dispatch w tcs (snd (process_tool_call w tc s))"
  using process_never_raises [OF assms] by (rule dispatch_returned)

lemma dispatch_never_raises:
  assumes "\<And>printed. console_print w printed = None"
  shows "fst (dispatch w tcs s) = Inr ()"
  by (induction tcs arbitrary: s) (simp_all add: dispatch_Cons [OF assms] del: dispatch.simps(2))

lemma tool_result_ids_append [simp]:
  "tool_result_ids (xs @ ys) = tool_result_ids xs @ tool_result_ids ys"
  by (simp add: tool_result_ids_def)

lemma process_messages:
  assumes "\<And>printed. console_print w printed = None" and "\<And>out. \<exists>t. json_dumps w out = Inr t"
  shows "\<exists>new. messages (snd (process_tool_call w tc s)) = messages s @ new
         \<and> tool_result_ids new = (if executes w tc then [Some (tc_id tc)] else [])
         \<and> map role new = (if executes w tc then [Tool, Assistant] else [Assistant])"
proof (cases "tool_query w tc")
  case None
  from process_not_executed [OF assms(1) this] obtain m where
    "role m = Assistant" "process_tool_call w tc s = (Inr (), append_message m s)" by blast
  with None show ?thesis
    by (simp add: executes_def append_message_def tool_result_ids_def)
next
  case (Some q)
  then show ?thesis
    by (simp add: process_executed [OF assms Some] executes_def follow_up_request_def
                  tool_result_ids_def)
qed

lemma dispatch_messages:
  assumes "\<And>printed. console_print w printed = None" and "\<And>out. \<exists>t. json_dumps w out = Inr t"
  shows "\<exists>new. messages (snd (dispatch w tcs s)) = messages s @ new
         \<and> tool_result_ids new = map (\<lambda>tc. Some (tc_id tc)) (filter (executes w) tcs)
         \<and> map role new = dispatch_roles w tcs"
proof (induction tcs arbitrary: s)
  case Nil
  then show ?case by (simp add: tool_result_ids_def dispatch_roles_def)
next
  case (Cons tc tcs)
  obtain new1 where 1: "messages (snd (process_tool_call w tc s)) = messages s @ new1"
    "tool_result_ids new1 = (if executes w tc then [Some (tc_id tc)] else [])"
    "map role new1 = (if executes w tc then [Tool, Assistant] else [Assistant])"
    using process_messages [OF assms] by blast
  obtain new2 where 2:
    "messages (snd (dispatch w tcs (snd (process_tool_call w tc s))))
       = messages (snd (process_tool_call w tc s)) @ new2"
    "tool_result_ids new2 = map (\<lambda>tc. Some (tc_id tc)) (filter (executes w) tcs)"
    "map role new2 = dispatch_roles w tcs"
    using Cons.IH by blast
  from 1 2 have "messages (snd (dispatch w (tc # tcs) s)) = messages s @ (new1 @ new2)"
    by (simp add: dispatch_Cons [OF assms(1)] del: dispatch.simps(2))
  moreover from 1 2 have "tool_result_ids (new1 @ new2)
      = map (\<lambda>tc. Some (tc_id tc)) (filter (executes w) (tc # tcs))"
    by simp
  moreover from 1 2 have "map role (new1 @ new2) = dispatch_roles w (tc # tcs)"
    by (simp add: dispatch_roles_def)
  ultimately show ?case by blast
qed

lemma tool_results_for_count:
  "length (tool_results_for x msgs) = length (filter (\<lambda>i. i = Some x) (tool_result_ids msgs))"
  by (induction msgs) (auto simp: tool_results_for_def tool_result_ids_def)

lemma count_executed_ids:
  "length (filter (\<lambda>i. i = Some x) (map (\<lambda>tc. Some (tc_id tc)) tcs))
     = length (filter (\<lambda>tc. tc_id tc = x) tcs)"
  by (induction tcs) auto

subsection \<open>Turns and the session\<close>

lemma turn_try_first_failed:
  assumes "chat_create w (length (llm_requests s)) (messages s) True = Inl e"
  shows "turn_try w s = (Inl e, s\<lparr>llm_requests := llm_requests s @ [(messages s, True)]\<rparr>)"
  using assms by (simp add: turn_try_def chat_completions_create_def)

lemma turn_first_call_fails:
  assumes "chat_create w (length (llm_requests s)) (messages s) True = Inl e"
    and "console_print w (unexpected_text e) = None"
  shows "turn w s = (Inr (), \<lparr>messages = messages s @ [apology],
                               llm_requests = llm_requests s @ [(messages s, True)],
                               catalog_requests = catalog_requests s\<rparr>)"
  using assms(2)
  by (simp add: turn_def turn_try_first_failed [OF assms(1)] report_printed append_message_def)

lemma turn_raises:
  assumes "turn w s = (Inl e', s')"
  shows "\<exists>e. console_print w (unexpected_text e) = Some e'"
proof -
  obtain r s1 where t: "turn_try w s = (r, s1)" by (cases "turn_try w s")
  show ?thesis
  proof (cases r)
    case (Inr u)
    with t assms show ?thesis by (simp add: turn_def)
  next
    case (Inl e)
    with t assms have "report w (unexpected_text e) apology s1 = (Inl e', s')"
      by (simp add: turn_def)
    from report_raises [OF this] show ?thesis by blast
  qed
qed

lemma turn_try_grows:
  "prefix (messages s) (messages (snd (turn_try w s)))
   \<and> prefix (llm_requests s @ [(messages s, True)]) (llm_requests (snd (turn_try w s)))"
proof (cases "chat_create w (length (llm_requests s)) (messages s) True")
  case (Inl e)
  then show ?thesis by (simp add: turn_try_first_failed)
next
  case (Inr r)
  let ?s1 = "append_message (response_message r) (s\<lparr>llm_requests := llm_requests s @ [(messages s, True)]\<rparr>)"
  show ?thesis
  proof (cases "reply_tool_calls r = []")
    case True
    with Inr show ?thesis
      by (simp add: turn_try_def chat_completions_create_def append_message_def split: option.splits)
  next
    case False
    from dispatch_grows [of ?s1 w "reply_tool_calls r"]
    have "prefix (messages s) (messages (snd (dispatch w (reply_tool_calls r) ?s1)))"
      and "prefix (llm_requests s @ [(messages s, True)]) (llm_requests (snd (dispatch w (reply_tool_calls r) ?s1)))"
      by (auto simp: append_message_def dest: append_prefixD)
    with Inr False show ?thesis
      by (simp add: turn_try_def chat_completions_create_def)
  qed
qed

lemma turn_grows:
  "prefix (messages s) (messages (snd (turn w s)))
   \<and> prefix (llm_requests s @ [(messages s, True)]) (llm_requests (snd (turn w s)))"
proof -
  obtain r s1 where t: "turn_try w s = (r, s1)" by (cases "turn_try w s")
  with turn_try_grows [of s w] have g: "prefix (messages s) (messages s1)"
    "prefix (llm_requests s @ [(messages s, True)]) (llm_requests s1)" by auto
  show ?thesis
  proof (cases r)
    case (Inr u)
    with t g show ?thesis by (simp add: turn_def)
  next
    case (Inl e)
    from report_grows [of s1 w "unexpected_text e" apology] g
    have "prefix (messages s) (messages (snd (report w (unexpected_text e) apology s1)))"
      and "prefix (llm_requests s @ [(messages s, True)])
                  (llm_requests (snd (report w (unexpected_text e) apology s1)))"
      by (auto intro: prefix_order.trans)
    with t Inl show ?thesis by (simp add: turn_def)
  qed
qed

lemma run_loop_grows:
  "prefix (messages s) (messages (snd (run_loop w user_inputs s)))
   \<and> prefix (llm_requests s) (llm_requests (snd (run_loop w user_inputs s)))"
proof (induction user_inputs arbitrary: s)
  case Nil
  then show ?case by simp
next
  case (Cons l ls)
  show ?case
  proof (cases "is_exit l")
    case True
    then show ?thesis by simp
  next
    case False
    let ?s1 = "append_message (plain_message User (Some l)) s"
    obtain r s2 where t: "turn w ?s1 = (r, s2)" by (cases "turn w ?s1")
    with turn_grows [of ?s1 w]
    have g: "prefix (messages s) (messages s2)" "prefix (llm_requests s) (llm_requests s2)"
      by (auto simp: append_message_def dest: append_prefixD)
    show ?thesis
    proof (cases r)
      case (Inl e)
      with t g False show ?thesis by simp
    next
      case (Inr u)
      with t g False Cons.IH [of s2] show ?thesis
        by (auto intro: prefix_order.trans)
    qed
  qed
qed

lemma run_loop_after_turn:
  assumes "\<not> is_exit user_input"
  shows "prefix (messages (snd (turn w (append_message (plain_message User (Some user_input)) s))))
                (messages (snd (run_loop w (user_input # rest) s)))
       \<and> prefix (llm_requests (snd (turn w (append_message (plain_message User (Some user_input)) s))))
                (llm_requests (snd (run_loop w (user_input # rest) s)))"
proof -
  let ?s1 = "append_message (plain_message User (Some user_input)) s"
  obtain r s2 where t: "turn w ?s1 = (r, s2)" by (cases "turn w ?s1")
  show ?thesis
  proof (cases r)
    case (Inl e)
    with t assms show ?thesis by simp
  next
    case (Inr u)
    with t assms run_loop_grows [of s2 w rest] show ?thesis by simp
  qed
qed

lemma run_loop_uncaught:
  "fst (run_loop w user_inputs s) = Uncaught e' \<Longrightarrow>
   e' = Exn EOFError ''EOF when reading a line'' \<or> (\<exists>e. console_print w (unexpected_text e) = Some e')"
proof (induction user_inputs arbitrary: s)
  case Nil
  then show ?case by simp
next
  case (Cons l ls)
  show ?case
  proof (cases "is_exit l")
    case True
    with Cons.prems show ?thesis by simp
  next
    case False
    let ?s1 = "append_message (plain_message User (Some l)) s"
    obtain r s2 where t: "turn w ?s1 = (r, s2)" by (cases "turn w ?s1")
    show ?thesis
    proof (cases r)
      case (Inl e)
      with t False Cons.prems have "e = e'" by simp
      with t Inl turn_raises [of w ?s1 e' s2] show ?thesis by simp
    next
      case (Inr u)
      with t False Cons.prems have "fst (run_loop w ls s2) = Uncaught e'" by simp
      then show ?thesis by (rule Cons.IH)
    qed
  qed
qed

subsubsection \<open>When the console prints everything\<close>

lemma turn_tool_calls:
  assumes "\<And>printed. console_print w printed = None"
      and "chat_create w (length (llm_requests s)) (messages s) True = Inr r"
      and "reply_tool_calls r \<noteq> []"
  shows "turn w s = (Inr (), snd (dispatch w (reply_tool_calls r)
            \<lparr>messages = messages s @ [response_message r],
             llm_requests = llm_requests s @ [(messages s, True)],
             catalog_requests = catalog_requests s\<rparr>))"
proof -
  let ?s1 = "\<lparr>messages = messages s @ [response_message r],
             llm_requests = llm_requests s @ [(messages s, True)],
             catalog_requests = catalog_requests s\<rparr>"
  from assms(2,3) have "turn_try w s = dispatch w (reply_tool_calls r) ?s1"
    by (cases s) (simp add: turn_try_def chat_completions_create_def append_message_def)
  moreover have "fst (dispatch w (reply_tool_calls r) ?s1) = Inr ()"
    by (rule dispatch_never_raises [OF assms(1)])
  ultimately show ?thesis
    by (cases "dispatch w (reply_tool_calls r) ?s1") (simp add: turn_def)
qed

lemma turn_never_raises:
  assumes "\<And>printed. console_print w printed = None"
  shows "fst (turn w s) = Inr ()"
proof (cases "turn w s")
  case (Pair r s')
  show ?thesis
  proof (cases r)
    case (Inr u)
    with Pair show ?thesis by simp
  next
    case (Inl e')
    with Pair turn_raises [of w s e' s'] assms show ?thesis by simp
  qed
qed

lemma run_loop_ending:
  assumes "\<And>printed. console_print w printed = None"
  shows "fst (run_loop w user_inputs s)
     = (if list_ex is_exit user_inputs then Goodbye
        else Uncaught (Exn EOFError ''EOF when reading a line''))"
proof (induction user_inputs arbitrary: s)
  case Nil
  then show ?case by simp
next
  case (Cons l ls)
  show ?case
  proof (cases "is_exit l")
    case True
    then show ?thesis by simp
  next
    case False
    let ?s1 = "append_message (plain_message User (Some l)) s"
    obtain r s2 where t: "turn w ?s1 = (r, s2)" by (cases "turn w ?s1")
    with turn_never_raises [OF assms, of ?s1] have "r = Inr ()" by simp
    with t False Cons.IH [of s2] show ?thesis by simp
  qed
qed

subsection \<open>The claims about the loop\<close>









text \<open>
  C8, as the code has it. A line that is \<^verbatim>\<open>exit\<close> or \<^verbatim>\<open>quit\<close> once stripped and
  lower-cased ends the loop and leaves the state as it is: no message, no completion
  request. Any other line is appended as a user message, and a completion request with
  the tool declarations is sent with the transcript that ends in it.
\<close>

theorem exit_or_model_call:
  "(lower (strip user_input) = ''exit'' \<or> lower (strip user_input) = ''quit''
      \<longrightarrow> run_loop w (user_input # rest) s = (Goodbye, s))
   \<and> (lower (strip user_input) \<noteq> ''exit'' \<and> lower (strip user_input) \<noteq> ''quit''
      \<longrightarrow> prefix (messages s @ [plain_message User (Some user_input)])
                 (messages (snd (run_loop w (user_input # rest) s)))
          \<and> prefix (llm_requests s @ [(messages s @ [plain_message User (Some user_input)], True)])
                   (llm_requests (snd (run_loop w (user_input # rest) s))))"

proof -
  have x: "is_exit user_input \<longleftrightarrow> lower (strip user_input) = ''exit'' \<or> lower (strip user_input) = ''quit''"
    by (auto simp: is_exit_def)
  let ?s1 = "append_message (plain_message User (Some user_input)) s"
  have "prefix (messages s @ [plain_message User (Some user_input)])
               (messages (snd (run_loop w (user_input # rest) s)))
      \<and> prefix (llm_requests s @ [(messages s @ [plain_message User (Some user_input)], True)])
               (llm_requests (snd (run_loop w (user_input # rest) s)))"
    if "\<not> is_exit user_input"
  proof -
    from turn_grows [of ?s1 w]
    have "prefix (messages s @ [plain_message User (Some user_input)]) (messages (snd (turn w ?s1)))"
      and "prefix (llm_requests s @ [(messages s @ [plain_message User (Some user_input)], True)])
                  (llm_requests (snd (turn w ?s1)))"
      by (simp_all add: append_message_def)
    with run_loop_after_turn [OF that, of w s rest] show ?thesis
      by (blast intro: prefix_order.trans)
  qed
  with x show ?thesis by auto
qed

theorem exit_or_model_call_witness:
  "lower (strip ''  Quit '') = ''quit''
   \<and> run_loop (example_world (reply_prose ''Hello'') (reply_prose ''One shoe'')) [''  Quit '', ''shoes''] example_state
       = (Goodbye, example_state)
   \<and> lower (strip ''shoes'') = ''shoes''
   \<and> prefix (messages example_state @ [plain_message User (Some ''shoes'')])
        (messages (snd (run_loop (example_world (reply_prose ''Hello'') (reply_prose ''One shoe''))
                                 [''shoes''] example_state)))
   \<and> prefix ([(messages example_state @ [plain_message User (Some ''shoes'')], True)])
        (llm_requests (snd (run_loop (example_world (reply_prose ''Hello'') (reply_prose ''One shoe''))
                                 [''shoes''] example_state)))"
proof -
  let ?w = "example_world (reply_prose ''Hello'') (reply_prose ''One shoe'')"
  have h1: "lower (strip ''  Quit '') = ''quit''" by code_simp
  have h2: "lower (strip ''shoes'') = ''shoes''" by code_simp
  have l: "llm_requests example_state = []" by (simp add: example_state_def)
  from exit_or_model_call [of "''  Quit ''" ?w "[''shoes'']" example_state]
       exit_or_model_call [of "''shoes''" ?w "[]" example_state] h1 h2 l
  show ?thesis by simp
qed

text \<open>
  C8 as stated fails for the empty line: it is no sentinel, so it becomes a user message
  and the model is called.
\<close>

theorem exit_or_model_call_counterexample:
  "run_loop (example_world (reply_prose ''Hello'') (reply_prose ''One shoe'')) ['''', ''quit''] example_state
     = (Goodbye,
        \<lparr>messages = messages example_state
                      @ [plain_message User (Some ''''), plain_message Assistant (Some ''Hello'')],
         llm_requests = [(messages example_state @ [plain_message User (Some '''')], True)],
         catalog_requests = 0\<rparr>)"
  by code_simp




subsection \<open>When the console raises\<close>

text \<open>
  A reply that the console cannot render: the print of line 183 raises, the reports of
  lines 191 and 203 quote the exception and raise in their turn, and the exception
  leaves the loop. The second call of the reply is never reached.
\<close>

lemma markup_error_abandons_calls:
  "turn (strict_world (reply_calls [shoe_call, all_call]) (reply_prose ''see [/x]'')) example_state
     = (Inl (Exn MarkupError (''closing tag '' @ quoted ''[/x]'' @ '' at position 64 doesn''
                              @ [CHR 0x27] @ ''t match any open tag'')),
        \<lparr>messages = messages example_state
            @ [response_message \<lparr>reply_content = None, reply_tool_calls = [shoe_call, all_call]\<rparr>,
               \<lparr>role = Tool, content = Some ''{data}'', tool_calls = [], tool_call_id = Some ''x'',
                 name = Some ''get_products_api''\<rparr>,
               plain_message Assistant (Some ''see [/x]'')],
         llm_requests = [(messages example_state, True),
            (messages example_state
               @ [response_message \<lparr>reply_content = None, reply_tool_calls = [shoe_call, all_call]\<rparr>,
                  \<lparr>role = Tool, content = Some ''{data}'', tool_calls = [], tool_call_id = Some ''x'',
                    name = Some ''get_products_api''\<rparr>], False)],
         catalog_requests = 1\<rparr>)"
  by code_simp

end
